theory Spec2Isabelle
  imports Main "HOL-Library.Sublist"
begin

section \<open>Training-run orchestration of VFIformer (train.py)\<close>

text \<open>
  The file \<^verbatim>\<open>train.py\<close> holds three functions: \<^verbatim>\<open>init_dist\<close>,
  \<^verbatim>\<open>set_random_seed\<close> and \<^verbatim>\<open>main\<close>. They are straight-line code that
  talks to the interpreter, the operating system and the torch library. The embedding
  makes that conversation explicit: a record \<open>world\<close> holds what the calls read and
  change, every call that has an effect appends an \<open>event\<close> to the world's trace, and
  every exception is a value of type \<open>error\<close>.
\<close>

subsection \<open>Errors, events and the world\<close>

datatype os_error =
  FileExists | FileNotFound | NotADirectory | PermissionDenied | OtherOSError

datatype error =
    ValueError            \<comment> \<open>\<^verbatim>\<open>int(s)\<close> on a string that is no integer literal,
                              \<^verbatim>\<open>np.random.seed\<close> on a seed out of range\<close>
  | KeyError              \<comment> \<open>\<^verbatim>\<open>os.environ['RANK']\<close> when the variable is not set\<close>
  | ZeroDivisionError     \<comment> \<open>\<^verbatim>\<open>rank % num_gpus\<close> when no device is visible\<close>
  | RuntimeError          \<comment> \<open>\<^verbatim>\<open>mp.set_start_method\<close> when a start method is already fixed,
                              \<^verbatim>\<open>torch.cuda.set_device\<close> on an index that is no device\<close>
  | OSError os_error      \<comment> \<open>\<^verbatim>\<open>os.makedirs\<close>, \<^verbatim>\<open>os.mkdir\<close>\<close>
  | BackendError          \<comment> \<open>\<^verbatim>\<open>dist.init_process_group\<close> fails or times out\<close>
  | DriverError           \<comment> \<open>the \<^verbatim>\<open>Trainer\<close> raises\<close>

datatype launcher = LNone | LPytorch

text \<open>
  The namespace that \<^verbatim>\<open>parser.parse_args()\<close> returns, with the options \<^verbatim>\<open>main\<close>
  reads. The choices of \<^verbatim>\<open>--launcher\<close> are \<^verbatim>\<open>'none'\<close> and \<^verbatim>\<open>'pytorch'\<close>. The
  remaining options (network, data, optimiser, losses, resume paths, logging cadences)
  are handed to the \<^verbatim>\<open>Trainer\<close> as they were parsed and are left out.
\<close>

record options =
  opt_random_seed :: int
  opt_name :: string
  opt_gpu_ids :: string
  opt_launcher :: launcher
  opt_local_rank :: int
  opt_save_folder :: string

text \<open>
  The same namespace after \<^verbatim>\<open>main\<close> has rewritten it: \<^verbatim>\<open>gpu_ids\<close> is now a list,
  \<^verbatim>\<open>save_folder\<close> holds the run's folder, and \<^verbatim>\<open>dist\<close>, \<^verbatim>\<open>rank\<close>,
  \<^verbatim>\<open>vis_save_dir\<close> and \<^verbatim>\<open>snapshot_save_dir\<close> are set. \<^verbatim>\<open>world_size\<close> is set
  in distributed mode only.
\<close>

record args =
  random_seed :: int
  name :: string
  gpu_ids :: "int list"
  launcher :: launcher
  local_rank :: int
  dist :: bool
  world_size :: "int option"
  rank :: int
  save_folder :: string
  vis_save_dir :: string
  snapshot_save_dir :: string

text \<open>
  Both \<^verbatim>\<open>main\<close> (line 118) and \<^verbatim>\<open>init_dist\<close> (line 24) call
  \<^verbatim>\<open>torch.cuda.set_device\<close>; the event of the call names the function that made it.
\<close>

datatype caller = FromMain | FromInitDist

datatype event =
    EvParseArgs
  | EvRandomSeed int
  | EvNumpySeed int
  | EvTorchSeed int
  | EvCudaSeedAll int
  | EvCudaSetDevice caller int
  | EvSetStartMethod string
  | EvInitProcessGroup string
  | EvPrint string
  | EvPrintInt int
  | EvStrftime
  | EvMakedirs string
  | EvMkdir string
  | EvSetupLogger string
  | EvPrintArgs args
  | EvTrainerInit args
  | EvTrainerTrain

text \<open>
  The world of one process. Some fields are inputs that the code only reads: \<open>environ\<close>
  is the launcher's environment, \<open>num_gpus\<close> is \<^verbatim>\<open>torch.cuda.device_count()\<close>,
  \<open>pg_outcome\<close> is what the process group answers (\<open>None\<close> when joining fails,
  otherwise the world size and the rank it reports), \<open>clock\<close> is the formatted
  wall-clock time, and \<open>trainer_init_raises\<close> and \<open>trainer_train_raises\<close> say whether
  the external training driver raises.

  The file system is seen through \<^verbatim>\<open>os.path.exists\<close>: \<open>paths\<close> is the set of path
  strings for which it answers \<^verbatim>\<open>True\<close>. What \<^verbatim>\<open>os.makedirs\<close> and \<^verbatim>\<open>os.mkdir\<close> do
  is the operating system's business and not decided by \<^verbatim>\<open>train.py\<close>: \<open>os_makedirs\<close>
  and \<open>os_mkdir\<close> give, for the paths that exist and the path asked for, the error the
  call raises, if any, and the paths that exist after the call (a call that raises may
  have created intermediate directories before). The properties below hold for every
  such behaviour.
\<close>

record world =
  environ :: "string \<rightharpoonup> string"
  start_method :: "string option"
  num_gpus :: nat
  cuda_device :: "int option"
  pg_outcome :: "(int \<times> int) option"
  pg_joined :: bool
  clock :: string
  paths :: "string set"
  os_makedirs :: "string set \<Rightarrow> string \<Rightarrow> os_error option \<times> string set"
  os_mkdir :: "string set \<Rightarrow> string \<Rightarrow> os_error option \<times> string set"
  log_sink :: "string option"
  cudnn_benchmark :: bool
  trainer_init_raises :: bool
  trainer_train_raises :: bool
  trace :: "event list"

subsection \<open>Computations that may raise\<close>

type_synonym 'a prog = "world \<Rightarrow> (error + 'a) \<times> world"

definition ok :: "'a \<Rightarrow> 'a prog" where
  "ok x w = (Inr x, w)"

definition and_then :: "'a prog \<Rightarrow> ('a \<Rightarrow> 'b prog) \<Rightarrow> 'b prog" where
  "and_then m f w = (case m w of (Inl e, w') \<Rightarrow> (Inl e, w') | (Inr x, w') \<Rightarrow> f x w')"

definition lift :: "error + 'a \<Rightarrow> 'a prog" where
  "lift r w = (r, w)"

definition emit :: "event \<Rightarrow> world \<Rightarrow> world" where
  "emit e w = w\<lparr>trace := trace w @ [e]\<rparr>"

subsection \<open>The Python built-ins the code uses\<close>

text \<open>
  \<^verbatim>\<open>str.split(',')\<close> cuts at every comma and always returns at least one token:
  \<^verbatim>\<open>''.split(',') == ['']\<close> and \<^verbatim>\<open>'a,,b'.split(',') == ['a', '', 'b']\<close>.
\<close>

fun str_split :: "char \<Rightarrow> string \<Rightarrow> string list" where
  "str_split sep [] = [] # []"
| "str_split sep (c # cs) =
     (if c = sep then [] # str_split sep cs
      else (case str_split sep cs of
              [] \<Rightarrow> [c] # []
            | t # ts \<Rightarrow> (c # t) # ts))"

text \<open>
  \<^verbatim>\<open>int(s)\<close> on a string, base ten, for ASCII input: the white space around the
  literal (space, tab, line feed, vertical tab, form feed, carriage return) is dropped,
  one sign is allowed, then come decimal digits, where single underscores may stand
  between two digits. Anything else raises \<^verbatim>\<open>ValueError\<close>, and so does a literal of
  more than 4300 digits (the interpreter's default limit for the conversion).
\<close>

definition is_space :: "char \<Rightarrow> bool" where
  "is_space c = (c \<in> set [CHR '' '', CHR 0x09, CHR 0x0A, CHR 0x0B, CHR 0x0C, CHR 0x0D])"

definition strip :: "string \<Rightarrow> string" where
  "strip s = rev (dropWhile is_space (rev (dropWhile is_space s)))"

definition digit_val :: "char \<Rightarrow> int option" where
  "digit_val =
     map_of [(CHR ''0'', 0), (CHR ''1'', 1), (CHR ''2'', 2), (CHR ''3'', 3), (CHR ''4'', 4),
             (CHR ''5'', 5), (CHR ''6'', 6), (CHR ''7'', 7), (CHR ''8'', 8), (CHR ''9'', 9)]"

definition max_str_digits :: nat where
  "max_str_digits = 4300"

fun py_digits :: "int \<Rightarrow> bool \<Rightarrow> string \<Rightarrow> int option" where
  "py_digits acc after_digit [] = (if after_digit then Some acc else None)"
| "py_digits acc after_digit (c # cs) =
     (case digit_val c of
        Some d \<Rightarrow> py_digits (10 * acc + d) True cs
      | None \<Rightarrow> (if c = CHR ''_'' \<and> after_digit then py_digits acc False cs else None))"

definition py_literal :: "string \<Rightarrow> int option" where
  "py_literal cs =
     (if max_str_digits < length (filter (\<lambda>c. digit_val c \<noteq> None) cs) then None
      else py_digits 0 False cs)"

definition py_int :: "string \<Rightarrow> error + int" where
  "py_int s =
     (case strip s of
        [] \<Rightarrow> Inl ValueError
      | c # cs \<Rightarrow>
          (if c = CHR ''-'' then
             (case py_literal cs of None \<Rightarrow> Inl ValueError | Some n \<Rightarrow> Inr (- n))
           else if c = CHR ''+'' then
             (case py_literal cs of None \<Rightarrow> Inl ValueError | Some n \<Rightarrow> Inr n)
           else
             (case py_literal (c # cs) of None \<Rightarrow> Inl ValueError | Some n \<Rightarrow> Inr n)))"

text \<open>
  \<^verbatim>\<open>os.path.join(a, b)\<close> of \<^verbatim>\<open>posixpath\<close>: an absolute \<open>b\<close> replaces \<open>a\<close>, an
  empty \<open>a\<close> or one that ends in a slash takes \<open>b\<close> as it is, otherwise a slash is put
  between the two.
\<close>

definition path_join :: "string \<Rightarrow> string \<Rightarrow> string" where
  "path_join a b =
     (if (case b of [] \<Rightarrow> False | c # _ \<Rightarrow> c = CHR ''/'') then b
      else if (case rev a of [] \<Rightarrow> True | c # _ \<Rightarrow> c = CHR ''/'') then a @ b
      else a @ ''/'' @ b)"

text \<open>\<^verbatim>\<open>a % b\<close> on integers: the sign follows the divisor, and a zero divisor raises.\<close>

definition py_mod :: "int \<Rightarrow> int \<Rightarrow> error + int" where
  "py_mod a b = (if b = 0 then Inl ZeroDivisionError else Inr (a mod b))"

subsection \<open>The library calls\<close>

text \<open>
  Each definition gives the part of a library call's documented behaviour that
  \<^verbatim>\<open>train.py\<close> relies on. A call that changes something is recorded in the trace
  when it is made, also when it raises.

  The four seeding calls of \<^verbatim>\<open>set_random_seed\<close>. \<^verbatim>\<open>random.seed\<close> takes every
  integer. \<^verbatim>\<open>np.random.seed\<close> raises \<^verbatim>\<open>ValueError\<close> unless the seed is between 0
  and \<open>2 ^ 32 - 1\<close>. The two torch seeders are reached only with a seed that passed,
  which they accept as well.
\<close>

definition py_random_seed :: "int \<Rightarrow> unit prog" where
  "py_random_seed seed w = (Inr (), emit (EvRandomSeed seed) w)"

definition np_random_seed :: "int \<Rightarrow> unit prog" where
  "np_random_seed seed w =
     (if 0 \<le> seed \<and> seed < 2 ^ 32 then (Inr (), emit (EvNumpySeed seed) w)
      else (Inl ValueError, emit (EvNumpySeed seed) w))"

definition torch_manual_seed :: "int \<Rightarrow> unit prog" where
  "torch_manual_seed seed w = (Inr (), emit (EvTorchSeed seed) w)"

definition cuda_manual_seed_all :: "int \<Rightarrow> unit prog" where
  "cuda_manual_seed_all seed w = (Inr (), emit (EvCudaSeedAll seed) w)"

text \<open>
  \<^verbatim>\<open>torch.cuda.set_device(d)\<close> does nothing for a negative \<open>d\<close>, makes \<open>d\<close> the
  current device when \<open>d\<close> is one of the visible devices, and raises
  \<^verbatim>\<open>RuntimeError\<close> otherwise (also when there is no device at all).
\<close>

definition cuda_set_device :: "caller \<Rightarrow> int \<Rightarrow> unit prog" where
  "cuda_set_device c d w =
     (if d < 0 then (Inr (), emit (EvCudaSetDevice c d) w)
      else if d < int (num_gpus w)
        then (Inr (), emit (EvCudaSetDevice c d) (w\<lparr>cuda_device := Some d\<rparr>))
      else (Inl RuntimeError, emit (EvCudaSetDevice c d) w))"

definition device_count :: "nat prog" where
  "device_count w = (Inr (num_gpus w), w)"

text \<open>
  \<^verbatim>\<open>mp.get_start_method(allow_none=True)\<close> answers \<^verbatim>\<open>None\<close> while no start method
  is fixed, and fixes none. \<^verbatim>\<open>mp.set_start_method(m)\<close> raises \<^verbatim>\<open>RuntimeError\<close>
  (context has already been set) when one is fixed already, whichever it is.
\<close>

definition get_start_method :: "string option prog" where
  "get_start_method w = (Inr (start_method w), w)"

definition set_start_method :: "string \<Rightarrow> unit prog" where
  "set_start_method m w =
     (case start_method w of
        None \<Rightarrow> (Inr (), emit (EvSetStartMethod m) (w\<lparr>start_method := Some m\<rparr>))
      | Some _ \<Rightarrow> (Inl RuntimeError, emit (EvSetStartMethod m) w))"

definition environ_item :: "string \<Rightarrow> string prog" where
  "environ_item k w = (case environ w k of None \<Rightarrow> (Inl KeyError, w) | Some v \<Rightarrow> (Inr v, w))"

definition init_process_group :: "string \<Rightarrow> unit prog" where
  "init_process_group backend w =
     (case pg_outcome w of
        None \<Rightarrow> (Inl BackendError, emit (EvInitProcessGroup backend) w)
      | Some _ \<Rightarrow> (Inr (), emit (EvInitProcessGroup backend) (w\<lparr>pg_joined := True\<rparr>)))"

definition get_world_size :: "int prog" where
  "get_world_size w =
     (case pg_outcome w of
        Some (n, r) \<Rightarrow> (if pg_joined w then (Inr n, w) else (Inl RuntimeError, w))
      | None \<Rightarrow> (Inl RuntimeError, w))"

definition get_rank :: "int prog" where
  "get_rank w =
     (case pg_outcome w of
        Some (n, r) \<Rightarrow> (if pg_joined w then (Inr r, w) else (Inl RuntimeError, w))
      | None \<Rightarrow> (Inl RuntimeError, w))"

definition print_str :: "string \<Rightarrow> unit prog" where
  "print_str s w = (Inr (), emit (EvPrint s) w)"

definition print_int :: "int \<Rightarrow> unit prog" where
  "print_int n w = (Inr (), emit (EvPrintInt n) w)"

definition strftime :: "string prog" where
  "strftime w = (Inr (clock w), emit EvStrftime w)"

text \<open>
  \<^verbatim>\<open>os.path.exists(p)\<close> reads the file system. \<^verbatim>\<open>os.makedirs(p)\<close> and
  \<^verbatim>\<open>os.mkdir(p)\<close> do what the world's operating system does with them.
\<close>

definition path_exists :: "string \<Rightarrow> bool prog" where
  "path_exists p w = (Inr (p \<in> paths w), w)"

definition makedirs :: "string \<Rightarrow> unit prog" where
  "makedirs p w =
     (case os_makedirs w (paths w) p of
        (None, ps) \<Rightarrow> (Inr (), emit (EvMakedirs p) (w\<lparr>paths := ps\<rparr>))
      | (Some e, ps) \<Rightarrow> (Inl (OSError e), emit (EvMakedirs p) (w\<lparr>paths := ps\<rparr>)))"

definition mkdir :: "string \<Rightarrow> unit prog" where
  "mkdir p w =
     (case os_mkdir w (paths w) p of
        (None, ps) \<Rightarrow> (Inr (), emit (EvMkdir p) (w\<lparr>paths := ps\<rparr>))
      | (Some e, ps) \<Rightarrow> (Inl (OSError e), emit (EvMkdir p) (w\<lparr>paths := ps\<rparr>)))"

text \<open>
  Modelled from the spec: \<^verbatim>\<open>setup_logger\<close> and \<^verbatim>\<open>print_args\<close> of \<^verbatim>\<open>utils.util\<close>
  and the class \<^verbatim>\<open>Trainer\<close> of \<^verbatim>\<open>models\<close> are not part of \<^verbatim>\<open>train.py\<close>. By the
  specification \<^verbatim>\<open>setup_logger\<close> initialises the textual log sink of the run at the
  given file, \<^verbatim>\<open>print_args\<close> emits a dump of the resolved configuration, and the
  driver is built from the resolved configuration and has one entry point that runs to
  completion or raises.
\<close>

definition setup_logger :: "string \<Rightarrow> unit prog" where
  "setup_logger p w = (Inr (), emit (EvSetupLogger p) (w\<lparr>log_sink := Some p\<rparr>))"

definition print_args :: "args \<Rightarrow> unit prog" where
  "print_args a w = (Inr (), emit (EvPrintArgs a) w)"

definition Trainer :: "args \<Rightarrow> unit prog" where
  "Trainer a w =
     (if trainer_init_raises w then (Inl DriverError, emit (EvTrainerInit a) w)
      else (Inr (), emit (EvTrainerInit a) w))"

definition trainer_train :: "unit prog" where
  "trainer_train w =
     (if trainer_train_raises w then (Inl DriverError, emit EvTrainerTrain w)
      else (Inr (), emit EvTrainerTrain w))"

definition parse_args :: "options \<Rightarrow> options prog" where
  "parse_args opts w = (Inr opts, emit EvParseArgs w)"

definition set_cudnn_benchmark :: "bool \<Rightarrow> unit prog" where
  "set_cudnn_benchmark b w = (Inr (), w\<lparr>cudnn_benchmark := b\<rparr>)"

subsection \<open>The functions of train.py\<close>

text \<open>\<^verbatim>\<open>init_dist\<close>, lines 18 to 25.\<close>

definition init_dist :: "string \<Rightarrow> unit prog" where
  "init_dist backend =
     and_then get_start_method (\<lambda>m.
     and_then (if m \<noteq> Some ''spawn'' then set_start_method ''spawn'' else ok ()) (\<lambda>_.
     and_then (environ_item ''RANK'') (\<lambda>s.
     and_then (lift (py_int s)) (\<lambda>rank.
     and_then device_count (\<lambda>num_gpus.
     and_then (lift (py_mod rank (int num_gpus))) (\<lambda>d.
     and_then (cuda_set_device FromInitDist d) (\<lambda>_.
     init_process_group backend)))))))"

text \<open>\<^verbatim>\<open>set_random_seed\<close>, lines 27 to 31.\<close>

definition set_random_seed :: "int \<Rightarrow> unit prog" where
  "set_random_seed seed =
     and_then (py_random_seed seed) (\<lambda>_.
     and_then (np_random_seed seed) (\<lambda>_.
     and_then (torch_manual_seed seed) (\<lambda>_.
     cuda_manual_seed_all seed)))"

text \<open>
  The loop of lines 112 to 116: \<open>acc\<close> is \<^verbatim>\<open>args.gpu_ids\<close>, which starts empty. A
  token that \<^verbatim>\<open>int\<close> rejects ends the loop with its \<^verbatim>\<open>ValueError\<close>.
\<close>

fun collect_ids :: "string list \<Rightarrow> int list \<Rightarrow> error + int list" where
  "collect_ids [] acc = Inr acc"
| "collect_ids (str_id # str_ids) acc =
     (case py_int str_id of
        Inl e \<Rightarrow> Inl e
      | Inr i \<Rightarrow> collect_ids str_ids (if i \<ge> 0 then acc @ [i] else acc))"

text \<open>Lines 111 to 118: the device ids are parsed and the first of them is bound.\<close>

definition parse_gpu_ids :: "string \<Rightarrow> error + int list" where
  "parse_gpu_ids s = collect_ids (str_split (CHR '','') s) []"

definition setup_device :: "string \<Rightarrow> int list prog" where
  "setup_device s =
     and_then (lift (parse_gpu_ids s)) (\<lambda>ids.
     and_then (case ids of [] \<Rightarrow> ok () | i # _ \<Rightarrow> cuda_set_device FromMain i) (\<lambda>_.
     ok ids))"

text \<open>
  Lines 121 to 130: the result is \<^verbatim>\<open>(args.dist, args.world_size, args.rank)\<close>.
\<close>

definition dist_settings :: "launcher \<Rightarrow> (bool \<times> int option \<times> int) prog" where
  "dist_settings l =
     (if l = LNone then
        and_then (print_str ''Disabled distributed training.'') (\<lambda>_.
        ok (False, None, - 1))
      else
        and_then (init_dist ''nccl'') (\<lambda>_.
        and_then get_world_size (\<lambda>n.
        and_then (print_int n) (\<lambda>_.
        and_then get_rank (\<lambda>r.
        ok (True, Some n, r))))))"

text \<open>
  Lines 137 to 142, the run layout manager: only a process of rank at most 0 creates
  the two directories, each only when \<^verbatim>\<open>os.path.exists\<close> denies it, and sets the
  logger up.
\<close>

definition run_layout :: "args \<Rightarrow> string \<Rightarrow> unit prog" where
  "run_layout a log_file_path =
     (if rank a \<le> 0 then
        and_then (path_exists (vis_save_dir a)) (\<lambda>e1.
        and_then (if e1 = False then makedirs (vis_save_dir a) else ok ()) (\<lambda>_.
        and_then (path_exists (snapshot_save_dir a)) (\<lambda>e2.
        and_then (if e2 = False then mkdir (snapshot_save_dir a) else ok ()) (\<lambda>_.
        setup_logger log_file_path))))
      else ok ())"

text \<open>
  Lines 144 to 150: the configuration is dumped and handed to the driver. The result
  is the namespace as the driver receives it.
\<close>

definition drive :: "args \<Rightarrow> args prog" where
  "drive a =
     and_then (print_args a) (\<lambda>_.
     and_then (set_cudnn_benchmark True) (\<lambda>_.
     and_then (Trainer a) (\<lambda>_.
     and_then trainer_train (\<lambda>_.
     ok a))))"

text \<open>
  \<^verbatim>\<open>main\<close>, from line 107 on (the lines before only declare the options).
\<close>

definition main :: "options \<Rightarrow> args prog" where
  "main argv =
     and_then (parse_args argv) (\<lambda>opts.
     and_then (set_random_seed (opt_random_seed opts)) (\<lambda>_.
     and_then (setup_device (opt_gpu_ids opts)) (\<lambda>ids.
     and_then (dist_settings (opt_launcher opts)) (\<lambda>(d, n, r).
     and_then strftime (\<lambda>stamp.
       let folder = path_join (opt_save_folder opts) (opt_name opts);
           a = \<lparr>random_seed = opt_random_seed opts, name = opt_name opts, gpu_ids = ids,
                launcher = opt_launcher opts, local_rank = opt_local_rank opts,
                dist = d, world_size = n, rank = r, save_folder = folder,
                vis_save_dir = path_join folder ''vis'',
                snapshot_save_dir = path_join folder ''snapshot''\<rparr>;
           log_file_path = folder @ ''/'' @ stamp @ ''.log''
       in
     and_then (run_layout a log_file_path) (\<lambda>_.
     drive a))))))"

subsection \<open>Stages of a run\<close>

text \<open>
  The stage a call belongs to, as \<^verbatim>\<open>main\<close> is laid out: line 107 parses the
  arguments, line 108 seeds, line 118 binds the first parsed device id, lines 121 to
  130 are the launcher branch (the notice that distributed training is disabled, or
  \<^verbatim>\<open>init_dist\<close> with all its calls and the print of the world size), lines 132 to
  135 derive the paths (the clock is read there), lines 137 to 144 create the layout
  and dump the configuration, lines 149 and 150 run the driver.
\<close>

datatype stage =
    ArgParsing | Seeding | DeviceBinding | Distribution | PathDerivation
  | LayoutCreation | DriverInvocation

fun stage_of :: "event \<Rightarrow> stage" where
  "stage_of EvParseArgs = ArgParsing"
| "stage_of (EvRandomSeed _) = Seeding"
| "stage_of (EvNumpySeed _) = Seeding"
| "stage_of (EvTorchSeed _) = Seeding"
| "stage_of (EvCudaSeedAll _) = Seeding"
| "stage_of (EvCudaSetDevice FromMain _) = DeviceBinding"
| "stage_of (EvCudaSetDevice FromInitDist _) = Distribution"
| "stage_of (EvSetStartMethod _) = Distribution"
| "stage_of (EvInitProcessGroup _) = Distribution"
| "stage_of (EvPrint _) = Distribution"
| "stage_of (EvPrintInt _) = Distribution"
| "stage_of EvStrftime = PathDerivation"
| "stage_of (EvMakedirs _) = LayoutCreation"
| "stage_of (EvMkdir _) = LayoutCreation"
| "stage_of (EvSetupLogger _) = LayoutCreation"
| "stage_of (EvPrintArgs _) = LayoutCreation"
| "stage_of (EvTrainerInit _) = DriverInvocation"
| "stage_of EvTrainerTrain = DriverInvocation"

definition stages :: "event list \<Rightarrow> stage list" where
  "stages es = remdups_adj (map stage_of es)"

text \<open>
  Line 118 makes its call only when the parsed list of device ids is not empty, so the
  device-binding stage is part of a run only then.
\<close>

definition device_stage :: "string \<Rightarrow> stage list" where
  "device_stage s =
     (case parse_gpu_ids s of
        Inl _ \<Rightarrow> []
      | Inr [] \<Rightarrow> []
      | Inr (_ # _) \<Rightarrow> [DeviceBinding])"

definition code_order :: "options \<Rightarrow> stage list" where
  "code_order argv =
     [ArgParsing, Seeding] @ device_stage (opt_gpu_ids argv)
       @ [Distribution, PathDerivation, LayoutCreation, DriverInvocation]"

text \<open>
  The order the specification gives: seeding, configuration resolution, device and
  distribution setup, layout creation, driver invocation. Configuration resolution is
  what the specification's run configuration resolver does: it takes the raw option
  values and computes the derived paths, with the time stamp of the log file.
\<close>

datatype spec_step = SpecSeeding | SpecResolution | SpecDeviceDist | SpecLayout | SpecDriver

fun spec_step_of :: "stage \<Rightarrow> spec_step" where
  "spec_step_of ArgParsing = SpecResolution"
| "spec_step_of Seeding = SpecSeeding"
| "spec_step_of DeviceBinding = SpecDeviceDist"
| "spec_step_of Distribution = SpecDeviceDist"
| "spec_step_of PathDerivation = SpecResolution"
| "spec_step_of LayoutCreation = SpecLayout"
| "spec_step_of DriverInvocation = SpecDriver"

definition spec_order :: "spec_step list" where
  "spec_order = [SpecSeeding, SpecResolution, SpecDeviceDist, SpecLayout, SpecDriver]"

definition spec_steps :: "event list \<Rightarrow> spec_step list" where
  "spec_steps es = remdups_adj (map (spec_step_of \<circ> stage_of) es)"

text \<open>The calls that set the start method.\<close>

fun is_set_start_method :: "event \<Rightarrow> bool" where
  "is_set_start_method (EvSetStartMethod _) = True"
| "is_set_start_method _ = False"

subsection \<open>What a computation adds to the trace\<close>

definition added :: "world \<Rightarrow> world \<Rightarrow> event list" where
  "added w w' = drop (length (trace w)) (trace w')"

definition run_events :: "options \<Rightarrow> world \<Rightarrow> event list" where
  "run_events argv w = added w (snd (main argv w))"

text \<open>
  Two notions for the proofs about the order of the stages. A computation is a block of
  stage \<open>S\<close> when all it adds to the trace belongs to \<open>S\<close>. It runs the stages \<open>ss\<close>
  when the stages of what it adds are an initial part of \<open>ss\<close>, and all of \<open>ss\<close> when
  it does not raise.
\<close>

definition block :: "stage \<Rightarrow> 'a prog \<Rightarrow> bool" where
  "block S m \<longleftrightarrow>
     (\<forall>w. \<exists>es. trace (snd (m w)) = trace w @ es \<and> list_all (\<lambda>e. stage_of e = S) es)"

definition stage_run :: "'a prog \<Rightarrow> stage list \<Rightarrow> bool" where
  "stage_run m ss \<longleftrightarrow>
     (\<forall>w. \<exists>es. trace (snd (m w)) = trace w @ es \<and> prefix (stages es) ss
            \<and> (isl (fst (m w)) \<or> stages es = ss))"

text \<open>
  What a working operating system promises of a creation call that does not raise:
  the path asked for exists afterwards, and no path that existed is gone.
\<close>

definition creates_ok :: "(string set \<Rightarrow> string \<Rightarrow> os_error option \<times> string set) \<Rightarrow> bool" where
  "creates_ok f \<longleftrightarrow> (\<forall>ps p ps'. f ps p = (None, ps') \<longrightarrow> p \<in> ps' \<and> ps \<subseteq> ps')"

subsection \<open>Sample inputs\<close>

text \<open>
  The defaults of the options, and a process that has done nothing yet on a machine
  with four devices. In the sample world the output tree is empty and the operating
  system creates every directory it is asked for, unless the path exists.
\<close>

definition default_options :: options where
  "default_options =
     \<lparr>opt_random_seed = 0, opt_name = ''train_vfiformer'', opt_gpu_ids = ''0'',
      opt_launcher = LNone, opt_local_rank = 0, opt_save_folder = ''./weights''\<rparr>"

definition sample_create :: "string set \<Rightarrow> string \<Rightarrow> os_error option \<times> string set" where
  "sample_create ps p = (if p \<in> ps then (Some FileExists, ps) else (None, insert p ps))"

definition fresh_world :: world where
  "fresh_world =
     \<lparr>environ = Map.empty, start_method = None, num_gpus = 4, cuda_device = None,
      pg_outcome = None, pg_joined = False, clock = ''20240101_000000'', paths = {},
      os_makedirs = sample_create, os_mkdir = sample_create,
      log_sink = None, cudnn_benchmark = False, trainer_init_raises = False,
      trainer_train_raises = False, trace = []\<rparr>"

definition launched_world :: world where
  "launched_world =
     fresh_world\<lparr>environ := [''RANK'' \<mapsto> ''5''], pg_outcome := Some (8, 5)\<rparr>"

definition sample_args :: "int \<Rightarrow> args" where
  "sample_args r =
     \<lparr>random_seed = 0, name = ''train_vfiformer'', gpu_ids = [0], launcher = LPytorch,
      local_rank = 0, dist = True, world_size = Some 8, rank = r,
      save_folder = ''./weights/train_vfiformer'',
      vis_save_dir = ''./weights/train_vfiformer/vis'',
      snapshot_save_dir = ''./weights/train_vfiformer/snapshot''\<rparr>"

lemmas prog_defs =
  ok_def and_then_def lift_def emit_def py_mod_def py_random_seed_def np_random_seed_def
  torch_manual_seed_def cuda_manual_seed_all_def cuda_set_device_def
  device_count_def get_start_method_def set_start_method_def environ_item_def
  init_process_group_def get_world_size_def get_rank_def print_str_def print_int_def
  strftime_def path_exists_def makedirs_def mkdir_def setup_logger_def print_args_def
  Trainer_def trainer_train_def parse_args_def set_random_seed_def set_cudnn_benchmark_def

lemmas int_defs = py_int_def py_literal_def max_str_digits_def strip_def is_space_def digit_val_def

section \<open>Properties\<close>

subsection \<open>Parsing the device ids\<close>

lemma py_int_error: "py_int s = Inl e \<Longrightarrow> e = ValueError"
  by (auto simp: py_int_def split: list.splits if_splits option.splits)

lemma collect_ids_error: "collect_ids ts acc = Inl e \<Longrightarrow> e = ValueError"
  by (induction ts arbitrary: acc) (auto split: sum.splits dest: py_int_error)

lemma parse_gpu_ids_error: "parse_gpu_ids s = Inl e \<Longrightarrow> e = ValueError"
  by (auto simp: parse_gpu_ids_def dest: collect_ids_error)

lemma collect_ids_filter:
  "map py_int ts = map Inr ids \<Longrightarrow>
   collect_ids ts acc = Inr (acc @ filter (\<lambda>i. 0 \<le> i) ids)"
  by (induction ts arbitrary: ids acc) auto

text \<open>
  Claim C5, as the code has it. For the device-id string \<^verbatim>\<open>"-1"\<close> the parsed list is
  empty and no device is bound: the world is left as it was. The empty string is
  different: \<^verbatim>\<open>''.split(',')\<close> is \<^verbatim>\<open>['']\<close>, and \<^verbatim>\<open>int('')\<close> raises, so the
  run ends with a \<^verbatim>\<open>ValueError\<close> (still without binding a device).
\<close>

theorem minus_one_is_cpu_only_and_empty_raises:
  "setup_device ''-1'' w = (Inr [], w) \<and> setup_device '''' w = (Inl ValueError, w)"
  by (simp add: setup_device_def parse_gpu_ids_def prog_defs int_defs)

text \<open>
  Claim C5 as stated fails at the empty device-id string: no list is parsed, and
  \<^verbatim>\<open>main\<close> ends with the error.
\<close>

theorem empty_gpu_ids_not_cpu_only:
  "parse_gpu_ids '''' \<noteq> Inr [] \<and>
   fst (main (default_options\<lparr>opt_gpu_ids := ''''\<rparr>) fresh_world) = Inl ValueError"
  by (simp add: main_def default_options_def fresh_world_def setup_device_def
      parse_gpu_ids_def prog_defs int_defs)

text \<open>
  Claim C6. The device-id string \<^verbatim>\<open>"0,2"\<close> is parsed to the list \<open>[0, 2]\<close> in that
  order. On a node where device 0 exists, lines 111 to 118 return this list and make
  one call, which binds device 0.
\<close>

theorem gpu_ids_0_2_binds_first:
  assumes "0 < num_gpus w"
  shows "parse_gpu_ids ''0,2'' = Inr [0, 2]
     \<and> setup_device ''0,2'' w =
         (Inr [0, 2], emit (EvCudaSetDevice FromMain 0) (w\<lparr>cuda_device := Some 0\<rparr>))"
  using assms by (simp add: setup_device_def parse_gpu_ids_def prog_defs int_defs)

theorem gpu_ids_0_2_binds_first_witness:
  "parse_gpu_ids ''0,2'' = Inr [0, 2]
   \<and> setup_device ''0,2'' fresh_world =
       (Inr [0, 2], emit (EvCudaSetDevice FromMain 0) (fresh_world\<lparr>cuda_device := Some 0\<rparr>))"
  using gpu_ids_0_2_binds_first [of fresh_world]
  by (simp add: fresh_world_def)

text \<open>
  Claim C10. When every token between the commas is an integer literal, the negative
  ones are dropped without an error: the parsed list holds the non-negative ids in
  their order. The first of them, if there is one and it is a device of the node, is
  bound as the device; when none is left, no device is bound.
\<close>

theorem negative_ids_dropped:
  assumes "map py_int (str_split (CHR '','') s) = map Inr ids"
    and "case filter (\<lambda>i. 0 \<le> i) ids of [] \<Rightarrow> True | i # _ \<Rightarrow> i < int (num_gpus w)"
  shows "parse_gpu_ids s = Inr (filter (\<lambda>i. 0 \<le> i) ids)
     \<and> setup_device s w =
         (Inr (filter (\<lambda>i. 0 \<le> i) ids),
          (case filter (\<lambda>i. 0 \<le> i) ids of
             [] \<Rightarrow> w
           | i # _ \<Rightarrow> emit (EvCudaSetDevice FromMain i) (w\<lparr>cuda_device := Some i\<rparr>)))"
proof -
  have parsed: "parse_gpu_ids s = Inr (filter (\<lambda>i. 0 \<le> i) ids)"
    using collect_ids_filter [OF assms(1), of "[]"] by (simp add: parse_gpu_ids_def)
  show ?thesis
  proof (cases "filter (\<lambda>i. 0 \<le> i) ids")
    case Nil
    with parsed show ?thesis
      by (simp add: setup_device_def prog_defs)
  next
    case (Cons i rest)
    then have "i \<in> set (filter (\<lambda>i. 0 \<le> i) ids)"
      by simp
    then have "0 \<le> i"
      by simp
    with parsed Cons assms(2) show ?thesis
      by (simp add: setup_device_def prog_defs)
  qed
qed

theorem negative_ids_dropped_witness:
  "parse_gpu_ids ''0,-1,2'' = Inr [0, 2]
   \<and> setup_device ''0,-1,2'' fresh_world =
       (Inr [0, 2], emit (EvCudaSetDevice FromMain 0) (fresh_world\<lparr>cuda_device := Some 0\<rparr>))"
  using negative_ids_dropped [of "''0,-1,2''" "[0, - 1, 2]" fresh_world]
  by (simp add: int_defs fresh_world_def)

subsection \<open>Distributed setup\<close>

text \<open>
  Claim C2. In multi-process mode, when the launcher supplies the rank \<open>r\<close> in
  \<^verbatim>\<open>RANK\<close>, the node shows \<open>G > 0\<close> devices and the start method can be set to
  spawn, \<^verbatim>\<open>init_dist\<close> binds the device \<open>r mod G\<close>, which is one of the \<open>G\<close> devices.
\<close>

theorem rank_binds_device_mod:
  assumes "environ w ''RANK'' = Some s" and "py_int s = Inr r" and "0 < num_gpus w"
    and "start_method w = None \<or> start_method w = Some ''spawn''"
  shows "cuda_device (snd (init_dist backend w)) = Some (r mod int (num_gpus w))
     \<and> 0 \<le> r mod int (num_gpus w) \<and> r mod int (num_gpus w) < int (num_gpus w)"
proof -
  have "\<not> r mod int (num_gpus w) < 0" and "r mod int (num_gpus w) < int (num_gpus w)"
    using assms(3) by (simp_all add: not_less)
  with assms show ?thesis
    by (auto simp: init_dist_def prog_defs split: option.splits)
qed

theorem rank_binds_device_mod_witness:
  "cuda_device (snd (init_dist ''nccl'' launched_world)) = Some 1"
  using rank_binds_device_mod [of launched_world "''5''" 5 "''nccl''"]
  by (simp add: launched_world_def fresh_world_def int_defs)

text \<open>
  Claim C9. \<^verbatim>\<open>init_dist\<close> makes spawn the start method without setting it twice.
  When none is fixed yet, it sets spawn, with one call. When spawn is fixed already,
  it makes no call and the start method stays. When another start method is fixed,
  the call raises \<^verbatim>\<open>RuntimeError\<close> and \<^verbatim>\<open>init_dist\<close> ends there.
\<close>

theorem spawn_mode_set_once:
  "(start_method w = None \<longrightarrow>
      start_method (snd (init_dist b w)) = Some ''spawn''
      \<and> length (filter is_set_start_method (added w (snd (init_dist b w)))) = 1)
   \<and> (start_method w = Some ''spawn'' \<longrightarrow>
      start_method (snd (init_dist b w)) = Some ''spawn''
      \<and> filter is_set_start_method (added w (snd (init_dist b w))) = [])
   \<and> (start_method w = Some m \<and> m \<noteq> ''spawn'' \<longrightarrow>
      init_dist b w = (Inl RuntimeError, emit (EvSetStartMethod ''spawn'') w))"
  by (auto simp: init_dist_def prog_defs added_def split: option.splits sum.splits)

theorem spawn_mode_set_once_witness:
  "start_method (snd (init_dist ''nccl'' launched_world)) = Some ''spawn''
   \<and> length (filter is_set_start_method
        (added launched_world (snd (init_dist ''nccl'' launched_world)))) = 1
   \<and> filter is_set_start_method
        (added (launched_world\<lparr>start_method := Some ''spawn''\<rparr>)
           (snd (init_dist ''nccl'' (launched_world\<lparr>start_method := Some ''spawn''\<rparr>)))) = []
   \<and> fst (init_dist ''nccl'' (launched_world\<lparr>start_method := Some ''fork''\<rparr>)) =
        Inl RuntimeError"
  using spawn_mode_set_once [of launched_world "''nccl''" "''fork''"]
    spawn_mode_set_once [of "launched_world\<lparr>start_method := Some ''spawn''\<rparr>" "''nccl''" "''fork''"]
    spawn_mode_set_once [of "launched_world\<lparr>start_method := Some ''fork''\<rparr>" "''nccl''" "''fork''"]
  by (simp add: launched_world_def fresh_world_def)

text \<open>
  Claim C7. In multi-process mode, when \<^verbatim>\<open>RANK\<close> is not in the environment,
  \<^verbatim>\<open>init_dist\<close> raises: \<^verbatim>\<open>KeyError\<close> for the missing variable, or before that
  \<^verbatim>\<open>RuntimeError\<close> when the start method cannot be set. So \<^verbatim>\<open>main\<close> ends with
  an error and never returns a configuration, single-process or other.
\<close>

theorem missing_rank_is_fatal:
  assumes "opt_launcher opts = LPytorch" and "environ w ''RANK'' = None"
  shows "fst (init_dist backend w) =
           (if start_method w = None \<or> start_method w = Some ''spawn''
            then Inl KeyError else Inl RuntimeError)
     \<and> (fst (main opts w) = Inl ValueError \<or> fst (main opts w) = Inl RuntimeError
          \<or> fst (main opts w) = Inl KeyError)"
proof
  show "fst (init_dist backend w) =
           (if start_method w = None \<or> start_method w = Some ''spawn''
            then Inl KeyError else Inl RuntimeError)"
    using assms(2) by (auto simp: init_dist_def prog_defs split: option.splits)
next
  show "fst (main opts w) = Inl ValueError \<or> fst (main opts w) = Inl RuntimeError
          \<or> fst (main opts w) = Inl KeyError"
  proof (cases "parse_gpu_ids (opt_gpu_ids opts)")
    case (Inl e)
    then have "e = ValueError" by (rule parse_gpu_ids_error)
    with Inl show ?thesis by (simp add: main_def setup_device_def prog_defs)
  next
    case (Inr ids)
    with assms show ?thesis
      by (cases ids; cases "start_method w")
         (simp_all add: main_def setup_device_def dist_settings_def init_dist_def prog_defs)
  qed
qed

theorem missing_rank_is_fatal_witness:
  "fst (init_dist ''nccl'' fresh_world) = Inl KeyError
   \<and> fst (main (default_options\<lparr>opt_launcher := LPytorch\<rparr>) fresh_world) = Inl KeyError"
  using missing_rank_is_fatal [of "default_options\<lparr>opt_launcher := LPytorch\<rparr>" fresh_world "''nccl''"]
  by (simp add: fresh_world_def default_options_def main_def setup_device_def parse_gpu_ids_def
      dist_settings_def init_dist_def prog_defs int_defs)

subsection \<open>The run layout\<close>

text \<open>
  Claim C3. A process of rank greater than 0 leaves the world as it is when it runs
  the layout manager: no directory is created and no log sink is set, whether or not
  the directories exist.
\<close>

theorem layout_skipped_on_positive_rank:
  "0 < rank a \<Longrightarrow> run_layout a p w = (Inr (), w)"
  by (simp add: run_layout_def ok_def)

theorem layout_skipped_on_positive_rank_witness:
  "run_layout (sample_args 5) ''run.log'' fresh_world = (Inr (), fresh_world)"
  using layout_skipped_on_positive_rank [of "sample_args 5" "''run.log''" fresh_world]
  by (simp add: sample_args_def)

text \<open>
  Claim C8. For a process of rank at most 0: when both directories exist, the layout
  manager makes no creation call and raises nothing; all it does is set the logger up,
  and a second call in the world the first one leaves, with whatever log file, is of
  that kind again. The same holds for a second call after a first one that had to
  create the directories and did not raise, on an operating system whose creation
  calls do what they promise.
\<close>

theorem layout_idempotent:
  assumes "rank a \<le> 0"
  shows "(vis_save_dir a \<in> paths w \<and> snapshot_save_dir a \<in> paths w \<longrightarrow>
            run_layout a p w = (Inr (), emit (EvSetupLogger p) (w\<lparr>log_sink := Some p\<rparr>)))
     \<and> ((vis_save_dir a \<in> paths w \<and> snapshot_save_dir a \<in> paths w)
          \<or> (creates_ok (os_makedirs w) \<and> creates_ok (os_mkdir w)
               \<and> fst (run_layout a p w) = Inr ()) \<longrightarrow>
          run_layout a q (snd (run_layout a p w)) =
            (Inr (), emit (EvSetupLogger q) ((snd (run_layout a p w))\<lparr>log_sink := Some q\<rparr>)))"
proof -
  have both: "run_layout a p w = (Inr (), emit (EvSetupLogger p) (w\<lparr>log_sink := Some p\<rparr>))"
    if "vis_save_dir a \<in> paths w" and "snapshot_save_dir a \<in> paths w" for p w
    using assms that by (simp add: run_layout_def prog_defs)
  have after: "vis_save_dir a \<in> paths (snd (run_layout a p w))
      \<and> snapshot_save_dir a \<in> paths (snd (run_layout a p w))"
    if "creates_ok (os_makedirs w)" and "creates_ok (os_mkdir w)"
      and "fst (run_layout a p w) = Inr ()"
    using assms that unfolding creates_ok_def run_layout_def prog_defs
    by (fastforce split: prod.splits option.splits if_splits)
  have kept: "vis_save_dir a \<in> paths (snd (run_layout a p w))
      \<and> snapshot_save_dir a \<in> paths (snd (run_layout a p w))"
    if "vis_save_dir a \<in> paths w" and "snapshot_save_dir a \<in> paths w"
    using both [OF that, of p] that by (simp add: emit_def)
  from both after kept show ?thesis
    by blast
qed

theorem layout_idempotent_witness:
  "run_layout (sample_args 0) ''run.log''
     (fresh_world\<lparr>paths := {''./weights/train_vfiformer/vis'',
                              ''./weights/train_vfiformer/snapshot''}\<rparr>) =
     (Inr (), emit (EvSetupLogger ''run.log'')
        (fresh_world\<lparr>paths := {''./weights/train_vfiformer/vis'',
                                 ''./weights/train_vfiformer/snapshot''},
                      log_sink := Some ''run.log''\<rparr>))
   \<and> paths (snd (run_layout (sample_args 0) ''later.log''
               (snd (run_layout (sample_args 0) ''run.log'' fresh_world)))) =
       paths (snd (run_layout (sample_args 0) ''run.log'' fresh_world))"
proof -
  have ok: "creates_ok sample_create"
    by (auto simp: creates_ok_def sample_create_def split: if_splits)
  have first: "fst (run_layout (sample_args 0) ''run.log'' fresh_world) = Inr ()"
    by (simp add: run_layout_def prog_defs sample_args_def fresh_world_def sample_create_def)
  have "rank (sample_args 0) \<le> 0"
    by (simp add: sample_args_def)
  from layout_idempotent [OF this, of
      "fresh_world\<lparr>paths := {''./weights/train_vfiformer/vis'',
                               ''./weights/train_vfiformer/snapshot''}\<rparr>" "''run.log''"]
    layout_idempotent [OF this, of fresh_world "''run.log''" "''later.log''"] ok first
  show ?thesis
    by (simp add: sample_args_def emit_def fresh_world_def)
qed

subsection \<open>The single-process run\<close>

lemma added_append: "trace w' = trace w @ es \<Longrightarrow> added w w' = es"
  by (simp add: added_def)

lemma layout_coordinator:
  assumes "rank a \<le> 0"
  shows "\<exists>es. trace (snd (run_layout a p w)) = trace w @ es
     \<and> (vis_save_dir a \<in> paths w \<or> EvMakedirs (vis_save_dir a) \<in> set es)
     \<and> ((\<exists>oe. fst (run_layout a p w) = Inl (OSError oe)) \<and> es \<noteq> []
          \<and> (last es = EvMakedirs (vis_save_dir a) \<or> last es = EvMkdir (snapshot_save_dir a))
        \<or> fst (run_layout a p w) = Inr () \<and> EvSetupLogger p \<in> set es
          \<and> log_sink (snd (run_layout a p w)) = Some p
          \<and> (snapshot_save_dir a \<in> paths (snd (run_layout a p w))
               \<or> EvMkdir (snapshot_save_dir a) \<in> set es)
          \<and> (creates_ok (os_makedirs w) \<and> creates_ok (os_mkdir w) \<longrightarrow>
                vis_save_dir a \<in> paths (snd (run_layout a p w))
                \<and> snapshot_save_dir a \<in> paths (snd (run_layout a p w))))"
  using assms unfolding creates_ok_def run_layout_def prog_defs
  by (fastforce split: prod.splits option.splits if_splits)

lemma drive_outcome:
  "\<exists>es. trace (snd (drive a w)) = trace w @ EvPrintArgs a # es
     \<and> (fst (drive a w) = Inr a \<or> fst (drive a w) = Inl DriverError)
     \<and> paths (snd (drive a w)) = paths w \<and> log_sink (snd (drive a w)) = log_sink w"
  unfolding drive_def prog_defs by simp

text \<open>
  Claim C4. With the launcher \<^verbatim>\<open>none\<close>, whatever the other options are, lines 121 to
  124 give \<^verbatim>\<open>dist = False\<close> and \<^verbatim>\<open>rank = -1\<close>. When the run gets as far as these
  lines (the seed is one \<^verbatim>\<open>np.random.seed\<close> takes, the device ids parse, and the
  first of them, if any, is a device of the node), the layout manager acts on the
  configuration with these two values as the coordinating process. It calls
  \<^verbatim>\<open>os.makedirs\<close> for the visualisation directory unless that existed. Then either
  one of its two creation calls raises, and the run ends there with the error of the
  operating system; or it sets the logger up at the log file of the run, having called
  \<^verbatim>\<open>os.mkdir\<close> for the snapshot directory unless that existed, the configuration is
  dumped, and \<^verbatim>\<open>main\<close> returns it unless the driver raises. On an operating system
  whose creation calls do what they promise both directories exist in the end.
\<close>

theorem single_process_is_coordinator:
  assumes "opt_launcher opts = LNone"
    and "0 \<le> opt_random_seed opts" and "opt_random_seed opts < 2 ^ 32"
    and "parse_gpu_ids (opt_gpu_ids opts) = Inr ids"
    and "case ids of [] \<Rightarrow> True | i # _ \<Rightarrow> i < int (num_gpus w)"
  shows "dist_settings (opt_launcher opts) v =
           (Inr (False, None, - 1), emit (EvPrint ''Disabled distributed training.'') v)
     \<and> (\<exists>a. dist a = False \<and> rank a = - 1 \<and> world_size a = None \<and> gpu_ids a = ids
           \<and> (vis_save_dir a \<in> paths w
                \<or> EvMakedirs (vis_save_dir a) \<in> set (run_events opts w))
           \<and> ((\<exists>oe. fst (main opts w) = Inl (OSError oe))
                 \<and> (last (run_events opts w) = EvMakedirs (vis_save_dir a)
                      \<or> last (run_events opts w) = EvMkdir (snapshot_save_dir a))
              \<or> (fst (main opts w) = Inr a \<or> fst (main opts w) = Inl DriverError)
                 \<and> EvSetupLogger (save_folder a @ ''/'' @ clock w @ ''.log'')
                      \<in> set (run_events opts w)
                 \<and> log_sink (snd (main opts w)) = Some (save_folder a @ ''/'' @ clock w @ ''.log'')
                 \<and> EvPrintArgs a \<in> set (run_events opts w)
                 \<and> (snapshot_save_dir a \<in> paths (snd (main opts w))
                      \<or> EvMkdir (snapshot_save_dir a) \<in> set (run_events opts w))
                 \<and> (creates_ok (os_makedirs w) \<and> creates_ok (os_mkdir w) \<longrightarrow>
                       vis_save_dir a \<in> paths (snd (main opts w))
                       \<and> snapshot_save_dir a \<in> paths (snd (main opts w)))))"
proof
  show "dist_settings (opt_launcher opts) v =
           (Inr (False, None, - 1), emit (EvPrint ''Disabled distributed training.'') v)"
    using assms(1) by (simp add: dist_settings_def prog_defs)
next
  define folder where "folder = path_join (opt_save_folder opts) (opt_name opts)"
  define a where "a = \<lparr>random_seed = opt_random_seed opts, name = opt_name opts,
      gpu_ids = ids, launcher = opt_launcher opts, local_rank = opt_local_rank opts,
      dist = False, world_size = None, rank = - 1, save_folder = folder,
      vis_save_dir = path_join folder ''vis'',
      snapshot_save_dir = path_join folder ''snapshot''\<rparr>"
  define p where "p = folder @ ''/'' @ clock w @ ''.log''"
  define w1 where "w1 = snd (strftime (snd (dist_settings LNone
      (snd (setup_device (opt_gpu_ids opts)
        (snd (set_random_seed (opt_random_seed opts) (snd (parse_args opts w)))))))))"
  have main_eq: "main opts w = and_then (run_layout a p) (\<lambda>_. drive a) w1"
    using assms
    by (cases ids)
       (simp_all add: main_def w1_def a_def p_def folder_def Let_def setup_device_def
          dist_settings_def prog_defs)
  have w1: "\<exists>pre. trace w1 = trace w @ pre" "paths w1 = paths w"
    "os_makedirs w1 = os_makedirs w" "os_mkdir w1 = os_mkdir w"
    using assms
    by (cases ids; simp add: w1_def setup_device_def dist_settings_def prog_defs)+
  then obtain pre where pre: "trace w1 = trace w @ pre"
    by blast
  have a: "dist a = False" "rank a = - 1" "world_size a = None" "gpu_ids a = ids"
    "save_folder a @ ''/'' @ clock w @ ''.log'' = p"
    by (simp_all add: a_def p_def)
  from a(2) have "rank a \<le> 0"
    by simp
  from layout_coordinator [OF this, of p w1] w1(2-4)
  obtain es where es: "trace (snd (run_layout a p w1)) = trace w1 @ es"
    and vis: "vis_save_dir a \<in> paths w \<or> EvMakedirs (vis_save_dir a) \<in> set es"
    and out: "(\<exists>oe. fst (run_layout a p w1) = Inl (OSError oe)) \<and> es \<noteq> []
          \<and> (last es = EvMakedirs (vis_save_dir a) \<or> last es = EvMkdir (snapshot_save_dir a))
        \<or> fst (run_layout a p w1) = Inr () \<and> EvSetupLogger p \<in> set es
          \<and> log_sink (snd (run_layout a p w1)) = Some p
          \<and> (snapshot_save_dir a \<in> paths (snd (run_layout a p w1))
               \<or> EvMkdir (snapshot_save_dir a) \<in> set es)
          \<and> (creates_ok (os_makedirs w) \<and> creates_ok (os_mkdir w) \<longrightarrow>
                vis_save_dir a \<in> paths (snd (run_layout a p w1))
                \<and> snapshot_save_dir a \<in> paths (snd (run_layout a p w1)))"
    by auto
  obtain r w2 where lay: "run_layout a p w1 = (r, w2)"
    by (cases "run_layout a p w1")
  have "(vis_save_dir a \<in> paths w \<or> EvMakedirs (vis_save_dir a) \<in> set (run_events opts w))
      \<and> ((\<exists>oe. fst (main opts w) = Inl (OSError oe))
            \<and> (last (run_events opts w) = EvMakedirs (vis_save_dir a)
                 \<or> last (run_events opts w) = EvMkdir (snapshot_save_dir a))
         \<or> (fst (main opts w) = Inr a \<or> fst (main opts w) = Inl DriverError)
            \<and> EvSetupLogger p \<in> set (run_events opts w)
            \<and> log_sink (snd (main opts w)) = Some p
            \<and> EvPrintArgs a \<in> set (run_events opts w)
            \<and> (snapshot_save_dir a \<in> paths (snd (main opts w))
                 \<or> EvMkdir (snapshot_save_dir a) \<in> set (run_events opts w))
            \<and> (creates_ok (os_makedirs w) \<and> creates_ok (os_mkdir w) \<longrightarrow>
                  vis_save_dir a \<in> paths (snd (main opts w))
                  \<and> snapshot_save_dir a \<in> paths (snd (main opts w))))"
  proof (cases r)
    case (Inl e)
    with lay have m: "main opts w = (Inl e, w2)"
      by (simp add: main_eq and_then_def)
    from es lay pre have "trace w2 = trace w @ pre @ es"
      by simp
    then have ev: "run_events opts w = pre @ es"
      using m by (simp add: run_events_def added_append)
    from out lay Inl have "\<exists>oe. e = OSError oe" "es \<noteq> []"
      "last es = EvMakedirs (vis_save_dir a) \<or> last es = EvMkdir (snapshot_save_dir a)"
      by auto
    with vis ev m show ?thesis
      by auto
  next
    case (Inr u)
    with lay have m: "main opts w = drive a w2"
      by (simp add: main_eq and_then_def)
    from drive_outcome [of a w2] obtain ds where ds: "trace (snd (drive a w2)) = trace w2 @ EvPrintArgs a # ds"
      and dr: "fst (drive a w2) = Inr a \<or> fst (drive a w2) = Inl DriverError"
      and dp: "paths (snd (drive a w2)) = paths w2" "log_sink (snd (drive a w2)) = log_sink w2"
      by blast
    from es lay pre ds have "trace (snd (drive a w2)) = trace w @ pre @ es @ EvPrintArgs a # ds"
      by simp
    then have ev: "run_events opts w = pre @ es @ EvPrintArgs a # ds"
      using m by (simp add: run_events_def added_append)
    from out lay Inr have "EvSetupLogger p \<in> set es" "log_sink w2 = Some p"
      "snapshot_save_dir a \<in> paths w2 \<or> EvMkdir (snapshot_save_dir a) \<in> set es"
      "creates_ok (os_makedirs w) \<and> creates_ok (os_mkdir w) \<longrightarrow>
         vis_save_dir a \<in> paths w2 \<and> snapshot_save_dir a \<in> paths w2"
      by auto
    with vis ev m dr dp show ?thesis
      by auto
  qed
  with a show "\<exists>a. dist a = False \<and> rank a = - 1 \<and> world_size a = None \<and> gpu_ids a = ids
           \<and> (vis_save_dir a \<in> paths w
                \<or> EvMakedirs (vis_save_dir a) \<in> set (run_events opts w))
           \<and> ((\<exists>oe. fst (main opts w) = Inl (OSError oe))
                 \<and> (last (run_events opts w) = EvMakedirs (vis_save_dir a)
                      \<or> last (run_events opts w) = EvMkdir (snapshot_save_dir a))
              \<or> (fst (main opts w) = Inr a \<or> fst (main opts w) = Inl DriverError)
                 \<and> EvSetupLogger (save_folder a @ ''/'' @ clock w @ ''.log'')
                      \<in> set (run_events opts w)
                 \<and> log_sink (snd (main opts w)) = Some (save_folder a @ ''/'' @ clock w @ ''.log'')
                 \<and> EvPrintArgs a \<in> set (run_events opts w)
                 \<and> (snapshot_save_dir a \<in> paths (snd (main opts w))
                      \<or> EvMkdir (snapshot_save_dir a) \<in> set (run_events opts w))
                 \<and> (creates_ok (os_makedirs w) \<and> creates_ok (os_mkdir w) \<longrightarrow>
                       vis_save_dir a \<in> paths (snd (main opts w))
                       \<and> snapshot_save_dir a \<in> paths (snd (main opts w))))"
    by (intro exI [of _ a]) simp
qed

theorem single_process_is_coordinator_witness:
  "\<exists>a. dist a = False \<and> rank a = - 1 \<and> world_size a = None \<and> gpu_ids a = [0]
      \<and> (vis_save_dir a \<in> paths fresh_world
           \<or> EvMakedirs (vis_save_dir a) \<in> set (run_events default_options fresh_world))
      \<and> ((\<exists>oe. fst (main default_options fresh_world) = Inl (OSError oe))
            \<and> (last (run_events default_options fresh_world) = EvMakedirs (vis_save_dir a)
                 \<or> last (run_events default_options fresh_world)
                     = EvMkdir (snapshot_save_dir a))
         \<or> (fst (main default_options fresh_world) = Inr a
              \<or> fst (main default_options fresh_world) = Inl DriverError)
            \<and> EvSetupLogger (save_folder a @ ''/'' @ clock fresh_world @ ''.log'')
                 \<in> set (run_events default_options fresh_world)
            \<and> log_sink (snd (main default_options fresh_world))
                 = Some (save_folder a @ ''/'' @ clock fresh_world @ ''.log'')
            \<and> EvPrintArgs a \<in> set (run_events default_options fresh_world)
            \<and> (snapshot_save_dir a \<in> paths (snd (main default_options fresh_world))
                 \<or> EvMkdir (snapshot_save_dir a)
                     \<in> set (run_events default_options fresh_world))
            \<and> (creates_ok (os_makedirs fresh_world) \<and> creates_ok (os_mkdir fresh_world) \<longrightarrow>
                  vis_save_dir a \<in> paths (snd (main default_options fresh_world))
                  \<and> snapshot_save_dir a \<in> paths (snd (main default_options fresh_world))))"
proof -
  have "opt_launcher default_options = LNone"
    and "0 \<le> opt_random_seed default_options"
    and "opt_random_seed default_options < 2 ^ 32"
    and "parse_gpu_ids (opt_gpu_ids default_options) = Inr [0]"
    and "case [0] of [] \<Rightarrow> True | i # _ \<Rightarrow> i < int (num_gpus fresh_world)"
    by (simp_all add: default_options_def fresh_world_def parse_gpu_ids_def int_defs)
  from single_process_is_coordinator [OF this] show ?thesis
    by (rule conjunct2)
qed

subsection \<open>The order of the stages\<close>

lemma stages_Nil [simp]: "stages [] = []"
  by (simp add: stages_def)

lemma remdups_adj_replicate_Cons:
  "remdups_adj (replicate n x @ x # ys) = remdups_adj (x # ys)"
proof (induction n)
  case 0
  show ?case by simp
next
  case (Suc n)
  obtain t where "remdups_adj (x # ys) = x # t"
    using remdups_adj_Cons_alt [of x ys] by metis
  with Suc show ?case
    by (simp add: remdups_adj_Cons [of x "replicate n x @ x # ys"] del: remdups_adj.simps)
qed

lemma block_map:
  "list_all (\<lambda>e. stage_of e = S) es \<Longrightarrow> map stage_of es = replicate (length es) S"
  by (induction es) simp_all

lemma stages_block:
  "list_all (\<lambda>e. stage_of e = S) es \<Longrightarrow> stages es = (if es = [] then [] else [S])"
  by (simp add: stages_def block_map remdups_adj_replicate)

lemma stages_block_append:
  assumes "list_all (\<lambda>e. stage_of e = S) es" and "prefix (stages fs) (S # ss)"
    and "fs \<noteq> []"
  shows "stages (es @ fs) = stages fs"
proof -
  from assms(3) have "stages fs \<noteq> []"
    by (simp add: stages_def)
  with assms(2) obtain r where "stages fs = S # r"
    by (cases "stages fs") auto
  then obtain e fs' where "fs = e # fs'" and "stage_of e = S"
    by (cases fs) (auto simp: stages_def remdups_adj_Cons split: list.splits if_splits)
  with assms(1) show ?thesis
    by (simp add: stages_def block_map remdups_adj_replicate_Cons del: remdups_adj.simps)
qed

lemma stages_append_disjoint:
  assumes "set (stages es) \<inter> set (stages fs) = {}"
  shows "stages (es @ fs) = stages es @ stages fs"
proof -
  have "map stage_of es = [] \<or> map stage_of fs = []
      \<or> last (map stage_of es) \<noteq> hd (map stage_of fs)"
  proof (cases "es = [] \<or> fs = []")
    case True
    then show ?thesis by auto
  next
    case False
    then have "last (map stage_of es) \<in> set (stages es)"
      and "hd (map stage_of fs) \<in> set (stages fs)"
      by (simp_all add: stages_def last_map hd_map)
    with assms show ?thesis by auto
  qed
  then show ?thesis
    unfolding stages_def map_append by (rule remdups_adj_append')
qed

text \<open>Two stage runs with no stage in common, one after the other.\<close>

lemma stage_run_seq:
  assumes m: "stage_run m ss1" and f: "\<And>x. stage_run (f x) ss2"
    and d: "set ss1 \<inter> set ss2 = {}"
  shows "stage_run (and_then m f) (ss1 @ ss2)"
  unfolding stage_run_def
proof
  fix w
  from m obtain es1 where es1: "trace (snd (m w)) = trace w @ es1"
      "prefix (stages es1) ss1" "isl (fst (m w)) \<or> stages es1 = ss1"
    unfolding stage_run_def by blast
  show "\<exists>es. trace (snd (and_then m f w)) = trace w @ es \<and> prefix (stages es) (ss1 @ ss2)
            \<and> (isl (fst (and_then m f w)) \<or> stages es = ss1 @ ss2)"
  proof (cases "m w")
    case (Pair r w')
    show ?thesis
    proof (cases r)
      case (Inl e)
      with Pair es1 show ?thesis
        by (auto simp: and_then_def intro: prefix_order.trans)
    next
      case (Inr x)
      with Pair es1 have s1: "stages es1 = ss1" and t1: "trace w' = trace w @ es1"
        by auto
      from f obtain es2 where es2: "trace (snd (f x w')) = trace w' @ es2"
          "prefix (stages es2) ss2" "isl (fst (f x w')) \<or> stages es2 = ss2"
        unfolding stage_run_def by blast
      from es2(2) have "set (stages es2) \<subseteq> set ss2"
        by (rule set_mono_prefix)
      with d s1 have "set (stages es1) \<inter> set (stages es2) = {}"
        by auto
      then have st: "stages (es1 @ es2) = ss1 @ stages es2"
        using s1 by (simp add: stages_append_disjoint)
      have "and_then m f w = f x w'"
        using Pair Inr by (simp add: and_then_def)
      with es2 t1 st show ?thesis
        by (intro exI [of _ "es1 @ es2"]) auto
    qed
  qed
qed

text \<open>A block of the stage that the rest of the run starts with.\<close>

lemma stage_run_block:
  assumes m: "block S m" and f: "\<And>x. stage_run (f x) (S # ss)"
  shows "stage_run (and_then m f) (S # ss)"
  unfolding stage_run_def
proof
  fix w
  from m obtain es1 where es1: "trace (snd (m w)) = trace w @ es1"
      "list_all (\<lambda>e. stage_of e = S) es1"
    unfolding block_def by blast
  show "\<exists>es. trace (snd (and_then m f w)) = trace w @ es \<and> prefix (stages es) (S # ss)
            \<and> (isl (fst (and_then m f w)) \<or> stages es = S # ss)"
  proof (cases "m w")
    case (Pair r w')
    show ?thesis
    proof (cases r)
      case (Inl e)
      with Pair es1 show ?thesis
        by (auto simp: and_then_def stages_block)
    next
      case (Inr x)
      with Pair es1 have t1: "trace w' = trace w @ es1"
        by auto
      from f obtain es2 where es2: "trace (snd (f x w')) = trace w' @ es2"
          "prefix (stages es2) (S # ss)" "isl (fst (f x w')) \<or> stages es2 = S # ss"
        unfolding stage_run_def by blast
      have eq: "and_then m f w = f x w'"
        using Pair Inr by (simp add: and_then_def)
      show ?thesis
      proof (cases "es2 = []")
        case True
        with es2 es1 t1 eq show ?thesis
          by (intro exI [of _ es1]) (auto simp: stages_block)
      next
        case False
        with es1(2) es2(2) have "stages (es1 @ es2) = stages es2"
          by (rule stages_block_append)
        with es2 t1 eq show ?thesis
          by (intro exI [of _ "es1 @ es2"]) auto
      qed
    qed
  qed
qed

text \<open>The parts of \<^verbatim>\<open>main\<close>, each within its stage.\<close>

lemma block_init_dist: "block Distribution (init_dist backend)"
  unfolding block_def init_dist_def prog_defs
  by (auto split: option.splits sum.splits)

lemma block_run_layout: "block LayoutCreation (run_layout a p)"
  unfolding block_def run_layout_def prog_defs
  by (auto split: prod.splits option.splits)

lemma stage_run_parse_args: "stage_run (parse_args argv) [ArgParsing]"
  unfolding stage_run_def prog_defs by (simp add: stages_def)

lemma stage_run_set_random_seed: "stage_run (set_random_seed seed) [Seeding]"
  unfolding stage_run_def prog_defs by (simp add: stages_def)

lemma stage_run_setup_device: "stage_run (setup_device s) (device_stage s)"
proof (cases "parse_gpu_ids s")
  case (Inl e)
  then show ?thesis
    unfolding stage_run_def setup_device_def device_stage_def prog_defs by simp
next
  case (Inr ids)
  then show ?thesis
    unfolding stage_run_def setup_device_def device_stage_def prog_defs
    by (cases ids) (simp_all add: stages_def)
qed

lemma stage_run_strftime: "stage_run strftime [PathDerivation]"
  unfolding stage_run_def prog_defs by (simp add: stages_def)

lemma stage_run_drive: "stage_run (drive a) [LayoutCreation, DriverInvocation]"
  unfolding stage_run_def drive_def prog_defs by (simp add: stages_def)

lemma stage_run_group:
  "stage_run (and_then get_world_size (\<lambda>n. and_then (print_int n) (\<lambda>_.
     and_then get_rank (\<lambda>r. ok (True, Some n, r))))) [Distribution]"
  unfolding stage_run_def prog_defs by (auto simp: stages_def split: option.splits)

lemma stage_run_dist_settings: "stage_run (dist_settings l) [Distribution]"
proof (cases l)
  case LNone
  then show ?thesis
    unfolding stage_run_def dist_settings_def prog_defs by (simp add: stages_def)
next
  case LPytorch
  have "stage_run (and_then (init_dist ''nccl'') (\<lambda>_. and_then get_world_size (\<lambda>n.
      and_then (print_int n) (\<lambda>_. and_then get_rank (\<lambda>r. ok (True, Some n, r))))))
      [Distribution]"
    by (rule stage_run_block [OF block_init_dist stage_run_group])
  with LPytorch show ?thesis
    by (simp add: dist_settings_def)
qed

lemma stage_run_main: "stage_run (main argv) (code_order argv)"
proof -
  have lay: "stage_run (and_then (run_layout a p) (\<lambda>_. drive a))
      [LayoutCreation, DriverInvocation]" for a p
    by (rule stage_run_block [OF block_run_layout stage_run_drive])
  have path: "stage_run (and_then strftime (\<lambda>stamp.
      and_then (run_layout (a stamp) (p stamp)) (\<lambda>_. drive (a stamp))))
      [PathDerivation, LayoutCreation, DriverInvocation]" for a p
    using stage_run_seq [OF stage_run_strftime lay] by simp
  have dist: "stage_run (and_then (dist_settings l) (\<lambda>(d, n, r). and_then strftime (\<lambda>stamp.
      and_then (run_layout (a d n r stamp) (p stamp)) (\<lambda>_. drive (a d n r stamp)))))
      [Distribution, PathDerivation, LayoutCreation, DriverInvocation]" for l a p
  proof -
    have "stage_run (and_then (dist_settings l) (\<lambda>(d, n, r). and_then strftime (\<lambda>stamp.
        and_then (run_layout (a d n r stamp) (p stamp)) (\<lambda>_. drive (a d n r stamp)))))
        ([Distribution] @ [PathDerivation, LayoutCreation, DriverInvocation])"
      by (rule stage_run_seq [OF stage_run_dist_settings]) (auto simp: path split: prod.splits)
    then show ?thesis by simp
  qed
  have dev: "stage_run (and_then (setup_device s) (\<lambda>ids.
      and_then (dist_settings l) (\<lambda>(d, n, r). and_then strftime (\<lambda>stamp.
      and_then (run_layout (a ids d n r stamp) (p stamp)) (\<lambda>_. drive (a ids d n r stamp))))))
      (device_stage s @ [Distribution, PathDerivation, LayoutCreation, DriverInvocation])"
    for s l a p
    by (rule stage_run_seq [OF stage_run_setup_device dist])
       (simp add: device_stage_def split: sum.splits list.splits)
  have seed: "stage_run (and_then (set_random_seed k) (\<lambda>_. and_then (setup_device s) (\<lambda>ids.
      and_then (dist_settings l) (\<lambda>(d, n, r). and_then strftime (\<lambda>stamp.
      and_then (run_layout (a ids d n r stamp) (p stamp)) (\<lambda>_. drive (a ids d n r stamp)))))))
      ([Seeding] @ device_stage s
         @ [Distribution, PathDerivation, LayoutCreation, DriverInvocation])"
    for k s l a p
    by (rule stage_run_seq [OF stage_run_set_random_seed dev])
       (simp add: device_stage_def split: sum.splits list.splits)
  have "stage_run (and_then (parse_args argv) (\<lambda>opts.
      and_then (set_random_seed (k opts)) (\<lambda>_. and_then (setup_device s) (\<lambda>ids.
      and_then (dist_settings (l opts)) (\<lambda>(d, n, r). and_then strftime (\<lambda>stamp.
      and_then (run_layout (a opts ids d n r stamp) (p opts stamp))
        (\<lambda>_. drive (a opts ids d n r stamp))))))))
      ([ArgParsing] @ [Seeding] @ device_stage s
         @ [Distribution, PathDerivation, LayoutCreation, DriverInvocation])"
    for k s l a p
    by (rule stage_run_seq [OF stage_run_parse_args seed])
       (simp add: device_stage_def split: sum.splits list.splits)
  note all = this [of opt_random_seed "opt_gpu_ids argv" opt_launcher]
  have m: "main argv = and_then (parse_args argv) (\<lambda>opts.
      and_then (set_random_seed (opt_random_seed opts)) (\<lambda>_.
      and_then (setup_device (opt_gpu_ids argv)) (\<lambda>ids.
      and_then (dist_settings (opt_launcher opts)) (\<lambda>(d, n, r). and_then strftime (\<lambda>stamp.
      and_then (run_layout
          \<lparr>random_seed = opt_random_seed opts, name = opt_name opts, gpu_ids = ids,
            launcher = opt_launcher opts, local_rank = opt_local_rank opts,
            dist = d, world_size = n, rank = r,
            save_folder = path_join (opt_save_folder opts) (opt_name opts),
            vis_save_dir = path_join (path_join (opt_save_folder opts) (opt_name opts)) ''vis'',
            snapshot_save_dir =
              path_join (path_join (opt_save_folder opts) (opt_name opts)) ''snapshot''\<rparr>
          (path_join (opt_save_folder opts) (opt_name opts) @ ''/'' @ stamp @ ''.log''))
        (\<lambda>_. drive
          \<lparr>random_seed = opt_random_seed opts, name = opt_name opts, gpu_ids = ids,
            launcher = opt_launcher opts, local_rank = opt_local_rank opts,
            dist = d, world_size = n, rank = r,
            save_folder = path_join (opt_save_folder opts) (opt_name opts),
            vis_save_dir = path_join (path_join (opt_save_folder opts) (opt_name opts)) ''vis'',
            snapshot_save_dir =
              path_join (path_join (opt_save_folder opts) (opt_name opts)) ''snapshot''\<rparr>))))))"
    by (rule ext) (simp add: main_def Let_def and_then_def parse_args_def)
  show ?thesis
    unfolding code_order_def m append_Cons append_Nil
    by (rule all [unfolded append_Cons append_Nil])
qed

text \<open>
  Claim C1, as the code has it. Whatever the options and the world are, the calls of
  one run of \<^verbatim>\<open>main\<close> come stage by stage, each stage in one piece, in this order:
  argument parsing (line 107), seeding (line 108), binding of the first parsed device
  id (line 118, a stage of the run only when the parsed list is not empty), the
  launcher branch (lines 121 to 130), derivation of the paths and of the time stamp
  (lines 132 to 135), layout creation with the dump of the configuration (lines 137 to
  144), driver invocation (lines 149 and 150). A run that raises stops somewhere in this
  order, and a run that does not raise goes through all of these stages.
\<close>

theorem stages_in_code_order:
  "trace (snd (main argv w)) = trace w @ run_events argv w
   \<and> prefix (stages (run_events argv w)) (code_order argv)
   \<and> (isl (fst (main argv w)) \<or> stages (run_events argv w) = code_order argv)"
  using stage_run_main [of argv]
  unfolding stage_run_def run_events_def added_def
  by (metis append_eq_conv_conj)

text \<open>
  Claim C1 as stated fails on the run with the default options. The first call is the
  argument parser and the seeding comes second, since the seed is one of the parsed
  options; and the paths are derived only after the device and distribution setup. So
  the steps of the specification do not come in the order it gives: configuration
  resolution comes before seeding, and again after the device and distribution setup.
\<close>

theorem spec_order_violated:
  "take 2 (run_events default_options fresh_world) = [EvParseArgs, EvRandomSeed 0]
   \<and> spec_steps (run_events default_options fresh_world) =
       [SpecResolution, SpecSeeding, SpecDeviceDist, SpecResolution, SpecLayout, SpecDriver]
   \<and> spec_steps (run_events default_options fresh_world) \<noteq> spec_order"
  by (simp add: run_events_def added_def spec_steps_def spec_order_def main_def
      default_options_def fresh_world_def sample_create_def setup_device_def
      parse_gpu_ids_def dist_settings_def run_layout_def drive_def prog_defs int_defs
      Let_def path_join_def)

text \<open>
  The stages of two sample runs: the single-process run with the default options, and
  a multi-process run of rank 5 with the device ids \<^verbatim>\<open>"0,2"\<close>, where line 118 binds
  device 0 before \<^verbatim>\<open>init_dist\<close> binds device 1.
\<close>

lemma default_run_stages:
  "stages (run_events default_options fresh_world) = code_order default_options
   \<and> code_order default_options =
       [ArgParsing, Seeding, DeviceBinding, Distribution, PathDerivation, LayoutCreation,
        DriverInvocation]"
  by (simp add: run_events_def added_def stages_def code_order_def device_stage_def main_def
      default_options_def fresh_world_def sample_create_def setup_device_def
      parse_gpu_ids_def dist_settings_def run_layout_def drive_def prog_defs int_defs
      Let_def path_join_def)

lemma distributed_run_devices:
  "filter (\<lambda>e. stage_of e = DeviceBinding \<or> stage_of e = Distribution)
     (run_events (default_options\<lparr>opt_gpu_ids := ''0,2'', opt_launcher := LPytorch\<rparr>)
        launched_world) =
     [EvCudaSetDevice FromMain 0, EvSetStartMethod ''spawn'', EvCudaSetDevice FromInitDist 1,
      EvInitProcessGroup ''nccl'', EvPrintInt 8]
   \<and> cuda_device (snd (main (default_options\<lparr>opt_gpu_ids := ''0,2'',
        opt_launcher := LPytorch\<rparr>) launched_world)) = Some 1"
  by (simp add: run_events_def added_def main_def
      default_options_def launched_world_def fresh_world_def sample_create_def
      setup_device_def parse_gpu_ids_def dist_settings_def init_dist_def run_layout_def
      drive_def prog_defs int_defs Let_def path_join_def)

end
